theory Spec2Isabelle
  imports Main
begin

section \<open>Notes (redbot.speak, as used by the active checks)\<close>

datatype categories = GENERAL | SECURITY | CONNEG | CACHING | VALIDATION | CONNECTION | RANGE

datatype levels = GOOD | WARN | BAD | INFO

text \<open>
  The Note subclasses that \<open>lm_validate.py\<close> emits. The first five are declared at the end
  of \<open>lm_validate.py\<close>; \<open>MISSING_HDRS_304\<close> is imported from
  \<open>redbot.resource.active_check.base\<close>.
\<close>

datatype note_class =
  LM_SUBREQ_PROBLEM | IMS_304 | IMS_FULL | IMS_UNKNOWN | IMS_STATUS | MISSING_HDRS_304

text \<open>
  The \<open>category\<close> and \<open>level\<close> class attributes. \<open>MISSING_HDRS_304\<close> is declared outside
  the files at hand, so its attributes are not known: \<open>None\<close>.
\<close>

fun category :: "note_class \<Rightarrow> categories option" where
  "category LM_SUBREQ_PROBLEM = Some VALIDATION"
| "category IMS_304 = Some VALIDATION"
| "category IMS_FULL = Some VALIDATION"
| "category IMS_UNKNOWN = Some VALIDATION"
| "category IMS_STATUS = Some VALIDATION"
| "category MISSING_HDRS_304 = None"

fun level :: "note_class \<Rightarrow> levels option" where
  "level LM_SUBREQ_PROBLEM = Some BAD"
| "level IMS_304 = Some GOOD"
| "level IMS_FULL = Some WARN"
| "level IMS_UNKNOWN = Some INFO"
| "level IMS_STATUS = Some INFO"
| "level MISSING_HDRS_304 = None"

text \<open>
  A Note instance: its subject, its class and the keyword arguments it was created with
  (a Python value that may be \<open>None\<close> is an option).
\<close>

record Note =
  subject :: string
  note_cls :: note_class
  vars :: "(string \<times> string option) list"

section \<open>Requests, responses and the resource under test\<close>

record http_error =
  desc :: string

record http_request =
  headers :: "(string \<times> string) list"

text \<open>
  \<open>parsed_headers\<close> is a dict from lower-case header names to parsed values; the parsed
  value of \<open>last-modified\<close> is a POSIX timestamp, and of the other headers only the
  presence of the key is read here.
\<close>

record http_response =
  complete :: bool
  status_code :: "string option"
  parsed_headers :: "string \<rightharpoonup> int"
  payload_md5 :: "string option"
  http_error :: "http_error option"

text \<open>
  \<open>HttpResource\<close> and \<open>SubRequest\<close> both extend the fetcher, which holds one request and
  one response; the resource adds its notes and the \<open>ims_support\<close> flag (\<open>None\<close> until
  a check decides it), the subrequest a reference to the resource it probes.
\<close>

record red_fetcher =
  request :: http_request
  response :: http_response

record http_resource = red_fetcher +
  ims_support :: "bool option"
  notes' :: "Note list"

record sub_request = red_fetcher +
  base :: http_resource
  fetch_started :: bool

datatype exn = ValueError | AttributeError | IndexError | TypeError

section \<open>The helpers of SubRequest\<close>

text \<open>
  Modelled from the spec: \<open>SubRequest.add_base_note\<close> (in \<open>active_check/base.py\<close>, which is
  not among the files at hand). The spec's \<open>emit(kind, subject, params)\<close> "instantiates an
  immutable Note ... and appends it to the context"; the notes sequence is append-only.
\<close>

definition add_base_note ::
  "string \<Rightarrow> note_class \<Rightarrow> (string \<times> string option) list \<Rightarrow> sub_request \<Rightarrow> sub_request" where
  "add_base_note subj cls kw self =
     self\<lparr>base := (base self)\<lparr>notes' :=
       notes' (base self) @ [\<lparr>subject = subj, note_cls = cls, vars = kw\<rparr>]\<rparr>\<rparr>"

text \<open>
  Modelled from the spec: \<open>SubRequest.check_missing_hdrs\<close> (also in \<open>active_check/base.py\<close>).
  The spec: "verify that a fixed set of response headers ... are in fact present on the
  probe response - for each one absent, emit a separate, distinct note naming that header,
  even though multiple such notes originate from the same rule."
\<close>

fun check_missing_hdrs ::
  "string list \<Rightarrow> note_class \<Rightarrow> string \<Rightarrow> sub_request \<Rightarrow> sub_request" where
  "check_missing_hdrs [] cls subreq_type self = self"
| "check_missing_hdrs (hdr # hdrs) cls subreq_type self =
     check_missing_hdrs hdrs cls subreq_type
       (if parsed_headers (response self) hdr = None
        then add_base_note hdr cls [(''subreq_type'', Some subreq_type)] self
        else self)"

text \<open>
  Modelled from the spec: the dispatch gate of \<open>SubRequest\<close> (in \<open>active_check/base.py\<close>).
  The spec: \<open>dispatch()\<close> is "invoked only if \<open>is_applicable()\<close> returned true; sets
  \<open>fetch_started = true\<close>"; when the test returns false "the Orchestrator then skips dispatch
  entirely for this check". The test itself is a parameter.
\<close>

definition check :: "(sub_request \<Rightarrow> bool \<times> sub_request) \<Rightarrow> sub_request \<Rightarrow> sub_request" where
  "check preflight_fn self =
     (case preflight_fn self of
        (True, self') \<Rightarrow> self'\<lparr>fetch_started := True\<rparr>
      | (False, self') \<Rightarrow> self')"

section \<open>LmValidate\<close>

subsection \<open>preflight\<close>

definition preflight :: "sub_request \<Rightarrow> bool \<times> sub_request" where
  "preflight self =
     (if parsed_headers (response (base self)) ''last-modified'' \<noteq> None
      then (True, self)
      else (False, self\<lparr>base := (base self)\<lparr>ims_support := Some False\<rparr>\<rparr>))"

subsection \<open>done\<close>

text \<open>Python's \<open>x or y\<close> on an optional string: \<open>None\<close> and the empty string are falsy.\<close>

definition py_or :: "string option \<Rightarrow> string \<Rightarrow> string" where
  "py_or x y = (case x of None \<Rightarrow> y | Some s \<Rightarrow> if s = [] then y else s)"

text \<open>
  \<open>LmValidate.done\<close>. Reading \<open>.desc\<close> of an \<open>http_error\<close> that is \<open>None\<close> raises
  AttributeError.
\<close>

definition done_lm :: "sub_request \<Rightarrow> exn + sub_request" where
  "done_lm self =
     (if \<not> complete (response self) then
        (case http_error (response self) of
           None \<Rightarrow> Inl AttributeError
         | Some err \<Rightarrow>
             Inr (add_base_note [] LM_SUBREQ_PROBLEM [(''problem'', Some (desc err))] self))
      else if status_code (response self) = Some ''304'' then
        Inr (check_missing_hdrs
               [''cache-control'', ''content-location'', ''etag'', ''expires'', ''vary'']
               MISSING_HDRS_304 ''If-Modified-Since''
               (add_base_note ''header-last-modified'' IMS_304 []
                  (self\<lparr>base := (base self)\<lparr>ims_support := Some True\<rparr>\<rparr>)))
      else if status_code (response self) = status_code (response (base self)) then
        (if payload_md5 (response self) = payload_md5 (response (base self)) then
           Inr (add_base_note ''header-last-modified'' IMS_FULL []
                  (self\<lparr>base := (base self)\<lparr>ims_support := Some False\<rparr>\<rparr>))
         else
           Inr (add_base_note ''header-last-modified'' IMS_UNKNOWN [] self))
      else
        Inr (add_base_note ''header-last-modified'' IMS_STATUS
               [(''ims_status'', status_code (response self)),
                (''enc_ims_status'', Some (py_or (status_code (response self)) ''(unknown)''))]
               self))"

text \<open>The notes a run of \<open>done\<close> appended, and how many of them have a given level.\<close>

definition new_notes :: "sub_request \<Rightarrow> sub_request \<Rightarrow> Note list" where
  "new_notes self self' = drop (length (notes' (base self))) (notes' (base self'))"

definition count_level :: "levels \<Rightarrow> Note list \<Rightarrow> nat" where
  "count_level l ns = length (filter (\<lambda>n. level (note_cls n) = Some l) ns)"

subsection \<open>Example resources\<close>

text \<open>
  A base resource answered with status 200 and a Last-Modified header, and probes of it
  that ended in each of the ways \<open>done\<close> tells apart.
\<close>

definition base_res :: http_resource where
  "base_res =
     \<lparr>request = \<lparr>headers = [(''User-Agent'', ''RED'')]\<rparr>,
      response = \<lparr>complete = True, status_code = Some ''200'',
                  parsed_headers = [''last-modified'' \<mapsto> 1678000089],
                  payload_md5 = Some ''abc'', http_error = None\<rparr>,
      ims_support = None, notes' = []\<rparr>"

definition base_no_lm :: http_resource where
  "base_no_lm =
     \<lparr>request = \<lparr>headers = [(''User-Agent'', ''RED'')]\<rparr>,
      response = \<lparr>complete = True, status_code = Some ''200'',
                  parsed_headers = Map.empty,
                  payload_md5 = Some ''abc'', http_error = None\<rparr>,
      ims_support = None, notes' = []\<rparr>"

definition probe :: "http_resource \<Rightarrow> http_response \<Rightarrow> sub_request" where
  "probe b r = \<lparr>request = \<lparr>headers = []\<rparr>, response = r, base = b, fetch_started = False\<rparr>"

definition resp_failed :: http_response where
  "resp_failed = \<lparr>complete = False, status_code = None, parsed_headers = Map.empty,
                   payload_md5 = None, http_error = Some \<lparr>desc = ''timeout''\<rparr>\<rparr>"

definition resp_304 :: http_response where
  "resp_304 = \<lparr>complete = True, status_code = Some ''304'',
                parsed_headers = [''etag'' \<mapsto> 0, ''expires'' \<mapsto> 0],
                payload_md5 = None, http_error = None\<rparr>"

definition resp_same :: http_response where
  "resp_same = \<lparr>complete = True, status_code = Some ''200'', parsed_headers = Map.empty,
                 payload_md5 = Some ''abc'', http_error = None\<rparr>"

definition resp_changed :: http_response where
  "resp_changed = \<lparr>complete = True, status_code = Some ''200'', parsed_headers = Map.empty,
                    payload_md5 = Some ''xyz'', http_error = None\<rparr>"

definition resp_500 :: http_response where
  "resp_500 = \<lparr>complete = True, status_code = Some ''500'', parsed_headers = Map.empty,
                payload_md5 = Some ''err'', http_error = None\<rparr>"

text \<open>A base resource whose Last-Modified timestamp lies in the year 10000.\<close>

definition base_bad_lm :: http_resource where
  "base_bad_lm =
     \<lparr>request = \<lparr>headers = [(''User-Agent'', ''RED'')]\<rparr>,
      response = \<lparr>complete = True, status_code = Some ''200'',
                  parsed_headers = [''last-modified'' \<mapsto> 253402300800],
                  payload_md5 = Some ''abc'', http_error = None\<rparr>,
      ims_support = None, notes' = []\<rparr>"

text \<open>
  Probes that never completed and for which no transport error was recorded, as
  \<open>finish_output\<close> of the HTML formatter expects of a response cut off by a global
  timeout (\<open>http_error is None\<close> on an incomplete response).
\<close>

definition resp_abandoned :: http_response where
  "resp_abandoned = \<lparr>complete = False, status_code = None, parsed_headers = Map.empty,
                      payload_md5 = None, http_error = None\<rparr>"

definition resp_cut_short :: http_response where
  "resp_cut_short = \<lparr>complete = False, status_code = Some ''200'',
                      parsed_headers = [''etag'' \<mapsto> 0],
                      payload_md5 = None, http_error = None\<rparr>"

section \<open>Dates (the parts of Python's datetime that LmValidate uses)\<close>

record datetime =
  year :: int
  month :: int
  day :: int
  hour :: int
  minute :: int
  second :: int

text \<open>
  The civil date of a day number is computed as Python's datetime module does it
  (\<open>_ord2ymd\<close>, day 1 being 0001-01-01 of the proleptic Gregorian calendar), and the day
  number of a date as \<open>_ymd2ord\<close> does. Python's \<open>divmod\<close> floors its quotient, which is
  what \<open>div\<close> and \<open>mod\<close> do on \<open>int\<close>.
\<close>

definition DAYS_IN_MONTH :: "int list" where
  "DAYS_IN_MONTH = [-1, 31, 28, 31, 30, 31, 30, 31, 31, 30, 31, 30, 31]"

definition DAYS_BEFORE_MONTH :: "int list" where
  "DAYS_BEFORE_MONTH = [-1, 0, 31, 59, 90, 120, 151, 181, 212, 243, 273, 304, 334]"

definition is_leap :: "int \<Rightarrow> bool" where
  "is_leap y = (y mod 4 = 0 \<and> (y mod 100 \<noteq> 0 \<or> y mod 400 = 0))"

definition days_before_year :: "int \<Rightarrow> int" where
  "days_before_year y = (y - 1) * 365 + (y - 1) div 4 - (y - 1) div 100 + (y - 1) div 400"

definition days_before_month :: "int \<Rightarrow> int \<Rightarrow> int" where
  "days_before_month y m = DAYS_BEFORE_MONTH ! nat m + (if m > 2 \<and> is_leap y then 1 else 0)"

definition ymd2ord :: "int \<Rightarrow> int \<Rightarrow> int \<Rightarrow> int" where
  "ymd2ord y m d = days_before_year y + days_before_month y m + d"

text \<open>
  The second half of \<open>_ord2ymd\<close>: month and day from the zero-based day of the year \<open>n\<close>.
  The month is estimated as \<open>(n + 50) >> 5\<close> and corrected when the estimate is too large.
\<close>

definition month_day :: "int \<Rightarrow> bool \<Rightarrow> int \<times> int" where
  "month_day n leapyear =
     (let month = (n + 50) div 32;
          preceding = DAYS_BEFORE_MONTH ! nat month + (if month > 2 \<and> leapyear then 1 else 0)
      in if preceding > n
         then (month - 1,
               n - (preceding - (DAYS_IN_MONTH ! nat (month - 1) +
                                 (if month - 1 = 2 \<and> leapyear then 1 else 0))) + 1)
         else (month, n - preceding + 1))"

definition ord2ymd :: "int \<Rightarrow> int \<times> int \<times> int" where
  "ord2ymd ordinal =
     (let n = ordinal - 1;
          n400 = n div 146097; r400 = n mod 146097;
          n100 = r400 div 36524; r100 = r400 mod 36524;
          n4 = r100 div 1461; r4 = r100 mod 1461;
          n1 = r4 div 365; r1 = r4 mod 365;
          y = n400 * 400 + 1 + n100 * 100 + n4 * 4 + n1
      in if n1 = 4 \<or> n100 = 4 then (y - 1, 12, 31)
         else (y, month_day r1 (n1 = 3 \<and> (n4 \<noteq> 24 \<or> n100 = 3))))"

text \<open>
  \<open>datetime.utcfromtimestamp\<close> on an integer number of seconds since 1970-01-01 (day number
  719163). A year outside 1..9999 raises ValueError.
\<close>

definition utcfromtimestamp :: "int \<Rightarrow> exn + datetime" where
  "utcfromtimestamp t =
     (let days = t div 86400; secs = t mod 86400 in
      case ord2ymd (days + 719163) of (y, m, d) \<Rightarrow>
        if y < 1 \<or> 9999 < y then Inl ValueError
        else Inr \<lparr>year = y, month = m, day = d, hour = secs div 3600,
                  minute = secs mod 3600 div 60, second = secs mod 60\<rparr>)"

text \<open>\<open>datetime.weekday()\<close>: Monday is 0.\<close>

definition weekday :: "datetime \<Rightarrow> int" where
  "weekday dt = (ymd2ord (year dt) (month dt) (day dt) + 6) mod 7"

subsection \<open>String formatting\<close>

text \<open>\<open>str(n)\<close> for a natural number, and \<open>'%.Pd' % n\<close>: at least \<open>P\<close> digits, zero-padded.\<close>

fun digits :: "nat \<Rightarrow> string" where
  "digits n = (if n < 10 then [''0123456789'' ! n]
               else digits (n div 10) @ [''0123456789'' ! (n mod 10)])"

definition fmt_d :: "nat \<Rightarrow> int \<Rightarrow> string" where
  "fmt_d prec n =
     (let ds = digits (nat \<bar>n\<bar>)
      in (if n < 0 then ''-'' else []) @ replicate (prec - length ds) (CHR ''0'') @ ds)"

text \<open>\<open>'%s' % x\<close> for an optional string: \<open>None\<close> prints as its name.\<close>

definition fmt_s :: "string option \<Rightarrow> string" where
  "fmt_s x = (case x of None \<Rightarrow> ''None'' | Some s \<Rightarrow> s)"

text \<open>
  Python's \<open>xs[i]\<close>: an index from 0 up to the length reads from the front, one from
  minus the length up to -1 reads from the back, and any other raises IndexError.
\<close>

definition getitem :: "'a list \<Rightarrow> int \<Rightarrow> exn + 'a" where
  "getitem xs i =
     (if 0 \<le> i \<and> i < int (length xs) then Inr (xs ! nat i)
      else if i < 0 \<and> - int (length xs) \<le> i then Inr (xs ! nat (int (length xs) + i))
      else Inl IndexError)"

subsection \<open>modify\_req\_hdrs\<close>

definition weekdays :: "string list" where
  "weekdays = [''Mon'', ''Tue'', ''Wed'', ''Thu'', ''Fri'', ''Sat'', ''Sun'']"

definition months :: "string option list" where
  "months = [None, Some ''Jan'', Some ''Feb'', Some ''Mar'', Some ''Apr'', Some ''May'',
             Some ''Jun'', Some ''Jul'', Some ''Aug'', Some ''Sep'', Some ''Oct'',
             Some ''Nov'', Some ''Dec'']"

text \<open>The value \<open>"%s, %.2d %s %.4d %.2d:%.2d:%.2d GMT" % (...)\<close> of \<open>modify_req_hdrs\<close>.\<close>

definition date_str :: "datetime \<Rightarrow> exn + string" where
  "date_str l_m =
     (case getitem weekdays (weekday l_m) of
        Inl e \<Rightarrow> Inl e
      | Inr wd \<Rightarrow>
          (case getitem months (month l_m) of
             Inl e \<Rightarrow> Inl e
           | Inr mon \<Rightarrow>
               Inr (wd @ '', '' @ fmt_d 2 (day l_m) @ '' '' @ fmt_s mon @ '' '' @
                    fmt_d 4 (year l_m) @ '' '' @ fmt_d 2 (hour l_m) @ '':'' @
                    fmt_d 2 (minute l_m) @ '':'' @ fmt_d 2 (second l_m) @ '' GMT'')))"

text \<open>Only ValueError is caught; the copy of the base request's headers is never changed.\<close>

definition modify_req_hdrs :: "sub_request \<Rightarrow> exn + (string \<times> string) list" where
  "modify_req_hdrs self =
     (let req_hdrs = headers (request (base self)) in
      case parsed_headers (response (base self)) ''last-modified'' of
        None \<Rightarrow> Inr req_hdrs
      | Some t \<Rightarrow>
          (case utcfromtimestamp t of
             Inl e \<Rightarrow> if e = ValueError then Inr req_hdrs else Inl e
           | Inr l_m \<Rightarrow>
               (case date_str l_m of
                  Inl e \<Rightarrow> Inl e
                | Inr s \<Rightarrow> Inr (req_hdrs @ [(''If-Modified-Since'', s)]))))"



section \<open>The HTML formatter (formatter/html.py)\<close>

subsection \<open>Strings\<close>

text \<open>
  \<open>e_html\<close> is \<open>cgi.escape\<close> with \<open>quote=True\<close>: the ampersand, the angle brackets and the
  double quote are replaced by their entities.
\<close>

definition e_html_char :: "char \<Rightarrow> string" where
  "e_html_char c =
     (if c = CHR ''&'' then ''&amp;''
      else if c = CHR ''<'' then ''&lt;''
      else if c = CHR ''>'' then ''&gt;''
      else if c = CHR 0x22 then ''&quot;''
      else [c])"

definition e_html :: "string \<Rightarrow> string" where
  "e_html s = concat (map e_html_char s)"

text \<open>\<open>str.lower\<close> on ASCII letters, and \<open>name.replace('-', '_')\<close>.\<close>

definition ascii_uppercase :: string where
  "ascii_uppercase = ''ABCDEFGHIJKLMNOPQRSTUVWXYZ''"

definition ascii_lowercase :: string where
  "ascii_lowercase = ''abcdefghijklmnopqrstuvwxyz''"

definition lower_char :: "char \<Rightarrow> char" where
  "lower_char c =
     (case map_of (zip ascii_uppercase ascii_lowercase) c of None \<Rightarrow> c | Some d \<Rightarrow> d)"

definition lower :: "string \<Rightarrow> string" where
  "lower s = map lower_char s"

definition dash_to_underscore :: "string \<Rightarrow> string" where
  "dash_to_underscore s = map (\<lambda>c. if c = CHR ''-'' then CHR ''_'' else c) s"

text \<open>\<open>sep.join(xs)\<close>.\<close>

fun join :: "string \<Rightarrow> string list \<Rightarrow> string" where
  "join sep [] = []"
| "join sep [x] = x"
| "join sep (x # y # ys) = x @ sep @ join sep (y # ys)"

definition nl :: string where
  "nl = [CHR 0x0A]"

subsection \<open>HeaderPresenter\<close>

text \<open>
  What the attributes of a presenter are bound to. \<open>HeaderPresenter\<close> has the instance
  attribute \<open>formatter\<close> (set by \<open>__init__\<close>), the methods \<open>Show\<close> and \<open>BARE_URI\<close>, the three
  class attributes that alias \<open>BARE_URI\<close>, and the static method \<open>I\<close>.
\<close>

datatype attr = The_formatter | Method_Show | Method_BARE_URI | Static_I

text \<open>
  The attribute namespace of an object, as \<open>hasattr\<close> and \<open>getattr\<close> see it, without the
  names that start with an underscore: \<open>Show\<close> never looks those up.
\<close>

type_synonym presenter = "(string \<times> attr) list"

definition HeaderPresenter :: presenter where
  "HeaderPresenter =
     [(''formatter'', The_formatter),
      (''Show'', Method_Show),
      (''BARE_URI'', Method_BARE_URI),
      (''content_location'', Method_BARE_URI),
      (''location'', Method_BARE_URI),
      (''x_xrds_location'', Method_BARE_URI),
      (''I'', Static_I)]"

definition hasattr :: "presenter \<Rightarrow> string \<Rightarrow> bool" where
  "hasattr self a = (map_of self a \<noteq> None)"

text \<open>
  What \<open>Show\<close> does with a header: it calls an attribute of the presenter with the
  lower-cased name and the value, or it calls \<open>self.I(e_html(value), len(name))\<close>. The
  bodies of the handlers rest on \<open>textwrap\<close> and on the formatter's query strings and
  are not unfolded; \<open>Show\<close> is modelled up to the call it makes.
\<close>

datatype presentation =
  Call attr string string
| Wrapped string nat

text \<open>
  The call \<open>getattr(self, name_token)(name, value)\<close>. The methods are callable. The
  \<open>formatter\<close> attribute holds the formatter object, whose classes in \<open>html.py\<close> define
  no \<open>__call__\<close>: calling it raises TypeError.
\<close>

definition call_attr :: "attr \<Rightarrow> string \<Rightarrow> string \<Rightarrow> exn + presentation" where
  "call_attr a name value =
     (case a of The_formatter \<Rightarrow> Inl TypeError | _ \<Rightarrow> Inr (Call a name value))"

text \<open>\<open>HeaderPresenter.Show\<close>. \<open>name_token[0]\<close> raises IndexError on an empty name.\<close>

definition Show :: "presenter \<Rightarrow> string \<Rightarrow> string \<Rightarrow> exn + presentation" where
  "Show self name0 value =
     (let name = lower name0;
          name_token = dash_to_underscore name
      in if name_token = [] then Inl IndexError
         else if hd name_token \<noteq> CHR ''_'' \<and> hasattr self name_token
           then (case map_of self name_token of
                   None \<Rightarrow> Inl AttributeError
                 | Some a \<Rightarrow> call_attr a name value)
         else Inr (Wrapped (e_html value) (length name)))"

text \<open>
  The spec's wording of the same step, for comparison: "an explicit mapping from a closed
  set of mechanism tokens to handler implementations, resolved by table lookup". The
  handlers of the class are \<open>BARE_URI\<close> under its three header tokens.
\<close>

definition handler_table :: "(string \<times> attr) list" where
  "handler_table =
     [(''content_location'', Method_BARE_URI),
      (''location'', Method_BARE_URI),
      (''x_xrds_location'', Method_BARE_URI)]"

definition Show_by_table :: "string \<Rightarrow> string \<Rightarrow> exn + presentation" where
  "Show_by_table name0 value =
     (let name = lower name0
      in case map_of handler_table (dash_to_underscore name) of
           Some h \<Rightarrow> Inr (Call h name value)
         | None \<Rightarrow> Inr (Wrapped (e_html value) (length name)))"

text \<open>A presenter like \<open>HeaderPresenter\<close> whose class also defines a method \<open>etag\<close>.\<close>

definition presenter_with_etag :: presenter where
  "presenter_with_etag = (''etag'', Method_BARE_URI) # HeaderPresenter"

subsection \<open>Notes in the HTML output\<close>

text \<open>
  A reference to a Python object: the number \<open>id()\<close> returns for it while it is alive,
  and the object. The number is the interpreter's, not an attribute of the object.
\<close>

type_synonym 'a obj = "nat \<times> 'a"

definition py_id :: "'a obj \<Rightarrow> nat" where
  "py_id r = fst r"

definition deref :: "'a obj \<Rightarrow> 'a" where
  "deref r = snd r"

text \<open>
  The parts of \<open>redbot.speak\<close> that the formatter reads and that are not among the files at
  hand: the rendering of a note's summary and text in a language, and the strings that
  the levels and categories are.
\<close>

record speak =
  show_summary :: "Note \<Rightarrow> string \<Rightarrow> string"
  show_text :: "Note \<Rightarrow> string \<Rightarrow> string"
  level_str :: "levels option \<Rightarrow> string"
  category_str :: "categories \<Rightarrow> string"

record html_formatter =
  lang :: string
  hidden_text :: "(string \<times> string) list"
  problems :: "Note obj list"

text \<open>The list item \<open>format_category\<close> writes for one note, and its \<open>hidden_text\<close> entry.\<close>

definition category_li :: "speak \<Rightarrow> string \<Rightarrow> Note obj \<Rightarrow> string" where
  "category_li sp lng r =
     ''    <li class='' @ [CHR 0x27] @ level_str sp (level (note_cls (deref r))) @
     '' note'' @ [CHR 0x27] @ '' data-subject='' @ [CHR 0x27] @
     e_html (subject (deref r)) @ [CHR 0x27] @ '' data-name='' @ [CHR 0x27] @
     ''noteid-'' @ digits (py_id r) @ [CHR 0x27] @ ''>'' @ nl @
     ''        <span>'' @ e_html (show_summary sp (deref r) lng) @ ''</span>'' @ nl @
     ''    </li>''"

definition category_hidden :: "speak \<Rightarrow> string \<Rightarrow> Note obj \<Rightarrow> string \<times> string" where
  "category_hidden sp lng r = (''noteid-'' @ digits (py_id r), show_text sp (deref r) lng)"

text \<open>
  \<open>SingleEntryHtmlFormatter.format_category\<close>. \<open>req_links\<close> stands for the strings that the
  loop over the subrequests of the category appends to the banner; they are made from
  the subrequests and the query string, not from the notes.
\<close>

definition format_category ::
  "speak \<Rightarrow> string list \<Rightarrow> html_formatter \<Rightarrow> categories \<Rightarrow> Note obj list \<Rightarrow>
     string \<times> html_formatter" where
  "format_category sp req_links self cat resource_notes =
     (let ns = filter (\<lambda>r. category (note_cls (deref r)) = Some cat) resource_notes
      in if ns = [] then (nl, self)
         else
           (join nl
              ([''<h3>'' @ category_str sp cat @ nl] @ req_links @
               [''</h3>'' @ nl, ''<ul>'' @ nl] @
               map (category_li sp (lang self)) ns @
               [''</ul>'' @ nl]),
            self\<lparr>hidden_text := hidden_text self @ map (category_hidden sp (lang self)) ns\<rparr>))"

text \<open>\<open>TableHtmlFormatter.format_problems\<close>.\<close>

definition problem_li :: "speak \<Rightarrow> string \<Rightarrow> Note obj \<Rightarrow> string" where
  "problem_li sp lng m =
     ''    <li class='' @ [CHR 0x27] @ level_str sp (level (note_cls (deref m))) @ '' '' @
     e_html (subject (deref m)) @ '' note'' @ [CHR 0x27] @ '' name='' @ [CHR 0x27] @
     ''msgid-'' @ digits (py_id m) @ [CHR 0x27] @ ''><span>'' @
     e_html (show_summary sp (deref m) lng) @ ''</span></li>''"

definition problem_hidden :: "speak \<Rightarrow> string \<Rightarrow> Note obj \<Rightarrow> string \<times> string" where
  "problem_hidden sp lng m = (''msgid-'' @ digits (py_id m), show_text sp (deref m) lng)"

definition format_problems :: "speak \<Rightarrow> html_formatter \<Rightarrow> string \<times> html_formatter" where
  "format_problems sp self =
     (join nl
        ([''<br /><h2>Notes</h2><ol>''] @
         map (problem_li sp (lang self)) (problems self) @
         [''</ol>'' @ nl]),
      self\<lparr>hidden_text := hidden_text self @ map (problem_hidden sp (lang self)) (problems self)\<rparr>)"

text \<open>
  The spec's wording of the key, for comparison: "a stable identifier assigned at
  creation (monotonic counter or content hash)". With the notes of a resource created in
  the order of its list, the counter of a note is its position and a content hash is a
  function of what the note holds; \<open>stable_keys\<close> takes the identifier from both.
\<close>

definition stable_keys :: "(nat \<Rightarrow> Note \<Rightarrow> string) \<Rightarrow> Note obj list \<Rightarrow> string list" where
  "stable_keys ident rs = map (\<lambda>(i, r). ident i (deref r)) (enumerate 0 rs)"

text \<open>Example notes: one Note object at two addresses, and an English rendering.\<close>

definition note_ims_304 :: Note where
  "note_ims_304 = \<lparr>subject = ''header-last-modified'', note_cls = IMS_304, vars = []\<rparr>"

definition speak_en :: speak where
  "speak_en =
     \<lparr>show_summary = (\<lambda>n l. ''If-Modified-Since conditional requests are supported.''),
      show_text = (\<lambda>n l. ''RED has done this and found a 304.''),
      level_str = (\<lambda>l. case l of Some GOOD \<Rightarrow> ''good'' | Some WARN \<Rightarrow> ''warning''
                        | Some BAD \<Rightarrow> ''bad'' | Some INFO \<Rightarrow> ''info'' | None \<Rightarrow> ''None''),
      category_str = (\<lambda>c. ''Validation'')\<rparr>"

definition formatter_en :: html_formatter where
  "formatter_en = \<lparr>lang = ''en'', hidden_text = [], problems = []\<rparr>"

text \<open>The same note, created first in its resource, in two runs of the program.\<close>

definition notes_run_a :: "Note obj list" where
  "notes_run_a = [(140001, note_ims_304)]"

definition notes_run_b :: "Note obj list" where
  "notes_run_b = [(140002, note_ims_304)]"

lemmas examples_defs =
  base_res_def base_no_lm_def probe_def resp_failed_def resp_304_def resp_same_def
  resp_changed_def resp_500_def resp_abandoned_def resp_cut_short_def

section \<open>Properties of the helpers\<close>

lemma sub_request_update_frame [simp]:
  "response ((s::sub_request)\<lparr>base := b\<rparr>) = response s"
  "request ((s::sub_request)\<lparr>base := b\<rparr>) = request s"
  "response ((s::sub_request)\<lparr>fetch_started := f\<rparr>) = response s"
  "request ((s::sub_request)\<lparr>fetch_started := f\<rparr>) = request s"
  by (cases s; simp)+

lemma http_resource_update_frame [simp]:
  "response ((r::http_resource)\<lparr>ims_support := v\<rparr>) = response r"
  "request ((r::http_resource)\<lparr>ims_support := v\<rparr>) = request r"
  "response ((r::http_resource)\<lparr>notes' := ns\<rparr>) = response r"
  "request ((r::http_resource)\<lparr>notes' := ns\<rparr>) = request r"
  by (cases r; simp)+

lemma add_base_note_simps [simp]:
  "notes' (base (add_base_note subj cls kw s)) =
     notes' (base s) @ [\<lparr>subject = subj, note_cls = cls, vars = kw\<rparr>]"
  "ims_support (base (add_base_note subj cls kw s)) = ims_support (base s)"
  "response (add_base_note subj cls kw s) = response s"
  "request (add_base_note subj cls kw s) = request s"
  "response (base (add_base_note subj cls kw s)) = response (base s)"
  "request (base (add_base_note subj cls kw s)) = request (base s)"
  "fetch_started (add_base_note subj cls kw s) = fetch_started s"
  by (simp_all add: add_base_note_def)

lemma check_missing_hdrs_frame [simp]:
  "response (check_missing_hdrs hs cls t s) = response s"
  "request (check_missing_hdrs hs cls t s) = request s"
  "fetch_started (check_missing_hdrs hs cls t s) = fetch_started s"
  "ims_support (base (check_missing_hdrs hs cls t s)) = ims_support (base s)"
  "response (base (check_missing_hdrs hs cls t s)) = response (base s)"
  "request (base (check_missing_hdrs hs cls t s)) = request (base s)"
  by (induction hs arbitrary: s; simp)+

text \<open>One note per listed header that the probe response lacks, in the order of the list.\<close>

lemma check_missing_hdrs_notes:
  "notes' (base (check_missing_hdrs hs cls t s)) =
     notes' (base s) @
     map (\<lambda>h. \<lparr>subject = h, note_cls = cls, vars = [(''subreq_type'', Some t)]\<rparr>)
       (filter (\<lambda>h. parsed_headers (response s) h = None) hs)"
  by (induction hs arbitrary: s) simp_all

section \<open>Classification of the probe\<close>

text \<open>
  An incomplete probe response that carries its transport error: \<open>done\<close> returns normally,
  appends exactly one note, the Bad note \<open>LM_SUBREQ_PROBLEM\<close> whose \<open>problem\<close> is the
  error's description, and leaves \<open>ims_support\<close> as it was.
\<close>

lemma done_incomplete_with_error:
  assumes "\<not> complete (response self)" and "http_error (response self) = Some err"
  shows "\<exists>self'. done_lm self = Inr self' \<and>
           notes' (base self') = notes' (base self) @
             [\<lparr>subject = [], note_cls = LM_SUBREQ_PROBLEM,
               vars = [(''problem'', Some (desc err))]\<rparr>] \<and>
           level LM_SUBREQ_PROBLEM = Some BAD \<and>
           length (new_notes self self') = 1 \<and>
           count_level BAD (new_notes self self') = 1 \<and>
           ims_support (base self') = ims_support (base self)"
  using assms by (simp add: done_lm_def new_notes_def count_level_def)

lemma done_incomplete_with_error_example:
  "\<not> complete (response (probe base_res resp_failed)) \<and>
   http_error (response (probe base_res resp_failed)) = Some \<lparr>desc = ''timeout''\<rparr> \<and>
   (\<exists>self'. done_lm (probe base_res resp_failed) = Inr self' \<and>
      notes' (base self') =
        [\<lparr>subject = [], note_cls = LM_SUBREQ_PROBLEM, vars = [(''problem'', Some ''timeout'')]\<rparr>] \<and>
      ims_support (base self') = None)"
  using done_incomplete_with_error [of "probe base_res resp_failed" "\<lparr>desc = ''timeout''\<rparr>"]
  by (auto simp: examples_defs)


text \<open>
  C1. When the probe response is complete with status 304, \<open>done\<close> sets \<open>ims_support\<close> to
  true and appends the Good note \<open>IMS_304\<close>, the only Good note it appends, followed by
  one note for each of cache-control, content-location, etag, expires and vary that the
  probe response lacks, whose subject is that header.
\<close>

theorem done_304:
  assumes "complete (response self)" and "status_code (response self) = Some ''304''"
  shows "\<exists>self'. done_lm self = Inr self' \<and>
           ims_support (base self') = Some True \<and>
           notes' (base self') = notes' (base self) @
             \<lparr>subject = ''header-last-modified'', note_cls = IMS_304, vars = []\<rparr> #
             map (\<lambda>h. \<lparr>subject = h, note_cls = MISSING_HDRS_304,
                        vars = [(''subreq_type'', Some ''If-Modified-Since'')]\<rparr>)
               (filter (\<lambda>h. parsed_headers (response self) h = None)
                  [''cache-control'', ''content-location'', ''etag'', ''expires'', ''vary'']) \<and>
           level IMS_304 = Some GOOD \<and>
           count_level GOOD (new_notes self self') = 1"
  using assms
  by (simp add: done_lm_def new_notes_def count_level_def check_missing_hdrs_notes
           del: check_missing_hdrs.simps)

theorem done_304_witness:
  "complete (response (probe base_res resp_304)) \<and>
   status_code (response (probe base_res resp_304)) = Some ''304'' \<and>
   (\<exists>self'. done_lm (probe base_res resp_304) = Inr self' \<and>
      ims_support (base self') = Some True \<and>
      map (\<lambda>n. (subject n, note_cls n)) (notes' (base self')) =
        [(''header-last-modified'', IMS_304), (''cache-control'', MISSING_HDRS_304),
         (''content-location'', MISSING_HDRS_304), (''vary'', MISSING_HDRS_304)])"
  using done_304 [of "probe base_res resp_304"]
  by (auto simp: examples_defs)

text \<open>
  C2, as the code has it. When the probe response is complete and its status is the base
  response's and not 304: if the two content hashes are equal, \<open>done\<close> sets \<open>ims_support\<close>
  to false and appends exactly one note, the Warn note \<open>IMS_FULL\<close>; if they differ, it
  appends exactly one note, the Info note \<open>IMS_UNKNOWN\<close>, and leaves \<open>ims_support\<close> as it was.
\<close>

theorem done_same_status:
  assumes "complete (response self)"
    and "status_code (response self) \<noteq> Some ''304''"
    and "status_code (response self) = status_code (response (base self))"
  shows "\<exists>self'. done_lm self = Inr self' \<and>
           (if payload_md5 (response self) = payload_md5 (response (base self))
            then ims_support (base self') = Some False \<and>
                 notes' (base self') = notes' (base self) @
                   [\<lparr>subject = ''header-last-modified'', note_cls = IMS_FULL, vars = []\<rparr>] \<and>
                 count_level WARN (new_notes self self') = 1
            else ims_support (base self') = ims_support (base self) \<and>
                 notes' (base self') = notes' (base self) @
                   [\<lparr>subject = ''header-last-modified'', note_cls = IMS_UNKNOWN, vars = []\<rparr>] \<and>
                 count_level INFO (new_notes self self') = 1) \<and>
           length (new_notes self self') = 1 \<and>
           level IMS_FULL = Some WARN \<and> level IMS_UNKNOWN = Some INFO"
  using assms by (simp add: done_lm_def new_notes_def count_level_def)

theorem done_same_status_witness:
  "complete (response (probe base_res resp_same)) \<and>
   status_code (response (probe base_res resp_same)) \<noteq> Some ''304'' \<and>
   status_code (response (probe base_res resp_same)) =
     status_code (response (base (probe base_res resp_same))) \<and>
   (\<exists>self'. done_lm (probe base_res resp_same) = Inr self' \<and>
      ims_support (base self') = Some False \<and>
      notes' (base self') =
        [\<lparr>subject = ''header-last-modified'', note_cls = IMS_FULL, vars = []\<rparr>])"
  using done_same_status [of "probe base_res resp_same"]
  by (auto simp: examples_defs)

text \<open>
  The claim as the spec words it fails: a probe with the base's status 200 and a different
  content hash leaves \<open>ims_support\<close> undecided and gets no Warn note, and one with the same
  hash gets no Info note and has \<open>ims_support\<close> set to false.
\<close>

theorem done_same_status_counterexample:
  "done_lm (probe base_res resp_changed) =
     Inr (probe (base_res\<lparr>notes' :=
       [\<lparr>subject = ''header-last-modified'', note_cls = IMS_UNKNOWN, vars = []\<rparr>]\<rparr>) resp_changed) \<and>
   ims_support (base (projr (done_lm (probe base_res resp_changed)))) \<noteq> Some False \<and>
   count_level WARN (new_notes (probe base_res resp_changed)
     (projr (done_lm (probe base_res resp_changed)))) = 0 \<and>
   ims_support (base (projr (done_lm (probe base_res resp_same)))) \<noteq>
     ims_support (base (probe base_res resp_same)) \<and>
   count_level INFO (new_notes (probe base_res resp_same)
     (projr (done_lm (probe base_res resp_same)))) = 0"
  by (simp add: examples_defs done_lm_def add_base_note_def new_notes_def count_level_def)

text \<open>
  A complete probe response whose status is neither 304 nor the base response's: \<open>done\<close>
  appends exactly one note, the Info note \<open>IMS_STATUS\<close> carrying the probe's status code,
  and leaves \<open>ims_support\<close> as it was. And every probe outcome that is complete, or
  failed with its transport error recorded, is classified: \<open>done\<close> returns and appends at
  least one note, whose class is fixed by the branch the outcome falls into.
\<close>

lemma done_classified:
  "(complete (response self) \<and> status_code (response self) \<noteq> Some ''304'' \<and>
    status_code (response self) \<noteq> status_code (response (base self)) \<longrightarrow>
      (\<exists>self'. done_lm self = Inr self' \<and>
         notes' (base self') = notes' (base self) @
           [\<lparr>subject = ''header-last-modified'', note_cls = IMS_STATUS,
             vars = [(''ims_status'', status_code (response self)),
                     (''enc_ims_status'',
                        Some (py_or (status_code (response self)) ''(unknown)''))]\<rparr>] \<and>
         level IMS_STATUS = Some INFO \<and>
         count_level INFO (new_notes self self') = 1 \<and>
         length (new_notes self self') = 1 \<and>
         ims_support (base self') = ims_support (base self))) \<and>
   (complete (response self) \<or> http_error (response self) \<noteq> None \<longrightarrow>
      (\<exists>self' n ns. done_lm self = Inr self' \<and>
         notes' (base self') = notes' (base self) @ n # ns \<and>
         note_cls n =
           (if \<not> complete (response self) then LM_SUBREQ_PROBLEM
            else if status_code (response self) = Some ''304'' then IMS_304
            else if status_code (response self) \<noteq> status_code (response (base self))
              then IMS_STATUS
            else if payload_md5 (response self) = payload_md5 (response (base self))
              then IMS_FULL
            else IMS_UNKNOWN) \<and>
         list_all (\<lambda>m. note_cls m = MISSING_HDRS_304) ns \<and>
         (ns = [] \<or> note_cls n = IMS_304)))"
proof (intro conjI impI)
  assume "complete (response self) \<and> status_code (response self) \<noteq> Some ''304'' \<and>
    status_code (response self) \<noteq> status_code (response (base self))"
  then show "\<exists>self'. done_lm self = Inr self' \<and>
         notes' (base self') = notes' (base self) @
           [\<lparr>subject = ''header-last-modified'', note_cls = IMS_STATUS,
             vars = [(''ims_status'', status_code (response self)),
                     (''enc_ims_status'',
                        Some (py_or (status_code (response self)) ''(unknown)''))]\<rparr>] \<and>
         level IMS_STATUS = Some INFO \<and>
         count_level INFO (new_notes self self') = 1 \<and>
         length (new_notes self self') = 1 \<and>
         ims_support (base self') = ims_support (base self)"
    by (simp add: done_lm_def new_notes_def count_level_def)
next
  assume "complete (response self) \<or> http_error (response self) \<noteq> None"
  then show "\<exists>self' n ns. done_lm self = Inr self' \<and>
         notes' (base self') = notes' (base self) @ n # ns \<and>
         note_cls n =
           (if \<not> complete (response self) then LM_SUBREQ_PROBLEM
            else if status_code (response self) = Some ''304'' then IMS_304
            else if status_code (response self) \<noteq> status_code (response (base self))
              then IMS_STATUS
            else if payload_md5 (response self) = payload_md5 (response (base self))
              then IMS_FULL
            else IMS_UNKNOWN) \<and>
         list_all (\<lambda>m. note_cls m = MISSING_HDRS_304) ns \<and>
         (ns = [] \<or> note_cls n = IMS_304)"
    by (auto simp: done_lm_def check_missing_hdrs_notes list_all_iff
             simp del: check_missing_hdrs.simps)
qed

lemma done_classified_example:
  "(complete (response (probe base_res resp_500)) \<and>
    status_code (response (probe base_res resp_500)) \<noteq> Some ''304'' \<and>
    status_code (response (probe base_res resp_500)) \<noteq>
      status_code (response (base (probe base_res resp_500)))) \<and>
   (complete (response (probe base_res resp_500)) \<or>
    http_error (response (probe base_res resp_500)) \<noteq> None) \<and>
   (\<exists>self'. done_lm (probe base_res resp_500) = Inr self' \<and>
      notes' (base self') =
        [\<lparr>subject = ''header-last-modified'', note_cls = IMS_STATUS,
          vars = [(''ims_status'', Some ''500''), (''enc_ims_status'', Some ''500'')]\<rparr>] \<and>
      ims_support (base self') = None)"
  using done_classified [of "probe base_res resp_500"]
  by (auto simp: examples_defs py_or_def)


section \<open>Applicability\<close>

text \<open>
  C6. When the base response has no parsed last-modified header, \<open>preflight\<close> returns false
  and sets \<open>ims_support\<close> to false, appends no note, and the check built on it starts no
  fetch; when the header is there, \<open>preflight\<close> returns true and changes nothing.
\<close>

theorem preflight_applicable:
  "(parsed_headers (response (base self)) ''last-modified'' = None \<longrightarrow>
      fst (preflight self) = False \<and>
      ims_support (base (snd (preflight self))) = Some False \<and>
      notes' (base (snd (preflight self))) = notes' (base self) \<and>
      notes' (base (check preflight self)) = notes' (base self) \<and>
      fetch_started (check preflight self) = fetch_started self) \<and>
   (parsed_headers (response (base self)) ''last-modified'' \<noteq> None \<longrightarrow>
      fst (preflight self) = True \<and> snd (preflight self) = self \<and>
      ims_support (base (check preflight self)) = ims_support (base self) \<and>
      fetch_started (check preflight self) = True)"
  by (simp add: preflight_def check_def)

theorem preflight_applicable_witness:
  "parsed_headers (response (base (probe base_no_lm resp_same))) ''last-modified'' = None \<and>
   fst (preflight (probe base_no_lm resp_same)) = False \<and>
   ims_support (base (snd (preflight (probe base_no_lm resp_same)))) = Some False \<and>
   notes' (base (check preflight (probe base_no_lm resp_same))) = [] \<and>
   fetch_started (check preflight (probe base_no_lm resp_same)) = False \<and>
   parsed_headers (response (base (probe base_res resp_same))) ''last-modified'' \<noteq> None \<and>
   fst (preflight (probe base_res resp_same)) = True \<and>
   ims_support (base (check preflight (probe base_res resp_same))) = None"
  using preflight_applicable [of "probe base_no_lm resp_same"]
    preflight_applicable [of "probe base_res resp_same"]
  by (simp add: examples_defs)

section \<open>The conditional request header\<close>

subsection \<open>Ranges of the date fields\<close>

lemma month_day_bounds_check:
  "list_all (\<lambda>n. \<forall>b. case month_day n b of (m, d) \<Rightarrow> 1 \<le> m \<and> m \<le> 12 \<and> 1 \<le> d \<and> d \<le> 31)
     [0..364]"
  by code_simp

lemma month_day_bounds:
  assumes "0 \<le> n" and "n \<le> 364" and "month_day n b = (m, d)"
  shows "1 \<le> m \<and> m \<le> 12 \<and> 1 \<le> d \<and> d \<le> 31"
proof -
  let ?ok = "\<lambda>n. \<forall>b. case month_day n b of (m, d) \<Rightarrow> 1 \<le> m \<and> m \<le> 12 \<and> 1 \<le> d \<and> d \<le> 31"
  from assms(1,2) have n: "n \<in> set [0..364]" by simp
  from month_day_bounds_check have "\<forall>n\<in>set [0..364]. ?ok n"
    by (simp only: list_all_iff)
  then have "?ok n" using n by (rule bspec)
  then have "case month_day n b of (m, d) \<Rightarrow> 1 \<le> m \<and> m \<le> 12 \<and> 1 \<le> d \<and> d \<le> 31"
    by (rule spec)
  with assms(3) show ?thesis by simp
qed

lemma ord2ymd_bounds:
  assumes "ord2ymd n = (y, m, d)"
  shows "1 \<le> m \<and> m \<le> 12 \<and> 1 \<le> d \<and> d \<le> 31"
proof -
  define r1 where "r1 = (n - 1) mod 146097 mod 36524 mod 1461 mod 365"
  have r: "0 \<le> r1" "r1 \<le> 364" by (simp_all add: r1_def)
  from assms consider "m = 12 \<and> d = 31" | b where "month_day r1 b = (m, d)"
    by (auto simp: ord2ymd_def Let_def r1_def split: if_splits)
  then show ?thesis
  proof cases
    case 1
    then show ?thesis by simp
  next
    case 2
    with r show ?thesis by (rule month_day_bounds)
  qed
qed

lemma utcfromtimestamp_bounds:
  assumes "utcfromtimestamp t = Inr dt"
  shows "1 \<le> year dt \<and> year dt \<le> 9999" and "1 \<le> month dt \<and> month dt \<le> 12"
    and "1 \<le> day dt \<and> day dt \<le> 31" and "0 \<le> hour dt \<and> hour dt \<le> 23"
    and "0 \<le> minute dt \<and> minute dt \<le> 59" and "0 \<le> second dt \<and> second dt \<le> 59"
proof -
  obtain y m d where ymd: "ord2ymd (t div 86400 + 719163) = (y, m, d)"
    by (cases "ord2ymd (t div 86400 + 719163)") auto
  with assms have dt: "dt = \<lparr>year = y, month = m, day = d, hour = t mod 86400 div 3600,
      minute = t mod 86400 mod 3600 div 60, second = t mod 86400 mod 60\<rparr>"
    and y: "1 \<le> y" "y \<le> 9999"
    by (auto simp: utcfromtimestamp_def Let_def split: if_splits)
  from ord2ymd_bounds [OF ymd] dt y
  show "1 \<le> year dt \<and> year dt \<le> 9999" and "1 \<le> month dt \<and> month dt \<le> 12"
    and "1 \<le> day dt \<and> day dt \<le> 31" by simp_all
  have "0 \<le> t mod 86400" "t mod 86400 \<le> 86399" by simp_all
  then have "0 \<le> t mod 86400 div 3600 \<and> t mod 86400 div 3600 \<le> 23"
    using zdiv_mono1 [of "t mod 86400" 86399 3600]
    by (simp add: pos_imp_zdiv_nonneg_iff)
  with dt show "0 \<le> hour dt \<and> hour dt \<le> 23" by simp
  have "0 \<le> t mod 86400 mod 3600" "t mod 86400 mod 3600 \<le> 3599" by simp_all
  then have "0 \<le> t mod 86400 mod 3600 div 60 \<and> t mod 86400 mod 3600 div 60 \<le> 59"
    using zdiv_mono1 [of "t mod 86400 mod 3600" 3599 60]
    by (simp add: pos_imp_zdiv_nonneg_iff)
  with dt show "0 \<le> minute dt \<and> minute dt \<le> 59" by simp
  have "0 \<le> t mod 86400 mod 60 \<and> t mod 86400 mod 60 < 60" by simp
  with dt show "0 \<le> second dt \<and> second dt \<le> 59" by simp
qed

lemma utcfromtimestamp_error:
  "utcfromtimestamp t = Inl e \<Longrightarrow> e = ValueError"
  by (auto simp: utcfromtimestamp_def Let_def split: if_splits prod.splits)

subsection \<open>Fixed-width fields\<close>

declare digits.simps [simp del]









subsection \<open>The table lookups never fail\<close>

lemma getitem_weekdays:
  "\<exists>wd. getitem weekdays (weekday dt) = Inr wd \<and> wd = weekdays ! nat (weekday dt) \<and>
     wd \<in> set weekdays"
proof -
  have "0 \<le> weekday dt" "weekday dt < 7" by (simp_all add: weekday_def)
  then have "weekday dt \<in> {0, 1, 2, 3, 4, 5, 6}" by auto
  then show ?thesis by (auto simp: getitem_def Let_def weekdays_def)
qed

lemma getitem_months:
  assumes "1 \<le> m" and "m \<le> 12"
  shows "\<exists>mon. getitem months m = Inr (Some mon) \<and> Some mon = months ! nat m \<and>
     Some mon \<in> set months"
proof -
  from assms have "m \<in> {1, 2, 3, 4, 5, 6, 7, 8, 9, 10, 11, 12}" by simp presburger
  then show ?thesis by (auto simp: getitem_def Let_def months_def)
qed

lemma date_str_shape:
  assumes "utcfromtimestamp t = Inr l_m"
  shows "\<exists>wd mon. date_str l_m =
           Inr (wd @ '', '' @ fmt_d 2 (day l_m) @ '' '' @ mon @ '' '' @
                fmt_d 4 (year l_m) @ '' '' @ fmt_d 2 (hour l_m) @ '':'' @
                fmt_d 2 (minute l_m) @ '':'' @ fmt_d 2 (second l_m) @ '' GMT'') \<and>
           wd = weekdays ! nat (weekday l_m) \<and> wd \<in> set weekdays \<and>
           Some mon = months ! nat (month l_m) \<and> Some mon \<in> set months"
proof -
  obtain wd where wd: "getitem weekdays (weekday l_m) = Inr wd"
    "wd = weekdays ! nat (weekday l_m)" "wd \<in> set weekdays"
    using getitem_weekdays by blast
  from utcfromtimestamp_bounds(2) [OF assms]
  obtain mon where mon: "getitem months (month l_m) = Inr (Some mon)"
    "Some mon = months ! nat (month l_m)" "Some mon \<in> set months"
    using getitem_months by blast
  show ?thesis
    by (intro exI [of _ wd] exI [of _ mon]) (simp add: date_str_def fmt_s_def wd(1,3) mon(1,3) wd(2) [symmetric] mon(2) [symmetric])
qed

subsection \<open>modify\_req\_hdrs\<close>

lemma modify_req_hdrs_no_header:
  "parsed_headers (response (base self)) ''last-modified'' = None \<Longrightarrow>
     modify_req_hdrs self = Inr (headers (request (base self)))"
  by (simp add: modify_req_hdrs_def)

lemma modify_req_hdrs_invalid:
  "parsed_headers (response (base self)) ''last-modified'' = Some t \<Longrightarrow>
   utcfromtimestamp t = Inl e \<Longrightarrow>
     modify_req_hdrs self = Inr (headers (request (base self)))"
  using utcfromtimestamp_error [of t e] by (simp add: modify_req_hdrs_def)

lemma modify_req_hdrs_valid:
  assumes "parsed_headers (response (base self)) ''last-modified'' = Some t"
    and "utcfromtimestamp t = Inr l_m"
  shows "\<exists>wd mon. modify_req_hdrs self =
           Inr (headers (request (base self)) @ [(''If-Modified-Since'',
                wd @ '', '' @ fmt_d 2 (day l_m) @ '' '' @ mon @ '' '' @
                fmt_d 4 (year l_m) @ '' '' @ fmt_d 2 (hour l_m) @ '':'' @
                fmt_d 2 (minute l_m) @ '':'' @ fmt_d 2 (second l_m) @ '' GMT'')]) \<and>
           wd = weekdays ! nat (weekday l_m) \<and> wd \<in> set weekdays \<and>
           Some mon = months ! nat (month l_m) \<and> Some mon \<in> set months"
proof -
  from date_str_shape [OF assms(2)] obtain wd mon where
    s: "date_str l_m =
           Inr (wd @ '', '' @ fmt_d 2 (day l_m) @ '' '' @ mon @ '' '' @
                fmt_d 4 (year l_m) @ '' '' @ fmt_d 2 (hour l_m) @ '':'' @
                fmt_d 2 (minute l_m) @ '':'' @ fmt_d 2 (second l_m) @ '' GMT'')"
    and t: "wd = weekdays ! nat (weekday l_m)" "wd \<in> set weekdays"
      "Some mon = months ! nat (month l_m)" "Some mon \<in> set months"
    by blast
  from assms s have "modify_req_hdrs self =
           Inr (headers (request (base self)) @ [(''If-Modified-Since'',
                wd @ '', '' @ fmt_d 2 (day l_m) @ '' '' @ mon @ '' '' @
                fmt_d 4 (year l_m) @ '' '' @ fmt_d 2 (hour l_m) @ '':'' @
                fmt_d 2 (minute l_m) @ '':'' @ fmt_d 2 (second l_m) @ '' GMT'')])"
    by (simp add: modify_req_hdrs_def)
  with t show ?thesis by blast
qed


lemma example_header:
  "modify_req_hdrs (probe base_res resp_same) =
     Inr [(''User-Agent'', ''RED''),
          (''If-Modified-Since'', ''Sun, 05 Mar 2023 07:08:09 GMT'')]"
  by code_simp

lemma example_invalid: "utcfromtimestamp 253402300800 = Inl ValueError"
  by code_simp



text \<open>
  C5. When the base response's last-modified value is one that \<open>utcfromtimestamp\<close>
  rejects, \<open>modify_req_hdrs\<close> returns normally, with the base request's headers and
  nothing more.
\<close>

theorem modify_req_hdrs_bad_timestamp:
  assumes "parsed_headers (response (base self)) ''last-modified'' = Some t"
    and "utcfromtimestamp t = Inl e"
  shows "modify_req_hdrs self = Inr (headers (request (base self)))"
  using assms by (rule modify_req_hdrs_invalid)

theorem modify_req_hdrs_bad_timestamp_witness:
  "parsed_headers (response (base (probe base_bad_lm resp_same))) ''last-modified'' =
     Some 253402300800 \<and>
   utcfromtimestamp 253402300800 = Inl ValueError \<and>
   modify_req_hdrs (probe base_bad_lm resp_same) = Inr [(''User-Agent'', ''RED'')]"
proof -
  have p: "parsed_headers (response (base (probe base_bad_lm resp_same))) ''last-modified'' =
     Some 253402300800"
    by (simp add: examples_defs base_bad_lm_def)
  have h: "headers (request (base (probe base_bad_lm resp_same))) = [(''User-Agent'', ''RED'')]"
    by (simp add: examples_defs base_bad_lm_def)
  from modify_req_hdrs_bad_timestamp [OF p example_invalid] p example_invalid h
  show ?thesis by simp
qed

text \<open>
  C10. \<open>modify_req_hdrs\<close> always returns, and what it returns is the base request's header
  list, in its order and unchanged, followed by nothing or by a single If-Modified-Since
  pair.
\<close>

theorem modify_req_hdrs_prefix:
  "\<exists>extra. modify_req_hdrs self = Inr (headers (request (base self)) @ extra) \<and>
     (extra = [] \<or> (\<exists>v. extra = [(''If-Modified-Since'', v)]))"
proof (cases "parsed_headers (response (base self)) ''last-modified''")
  case None
  then show ?thesis using modify_req_hdrs_no_header [of self] by simp
next
  case (Some t)
  show ?thesis
  proof (cases "utcfromtimestamp t")
    case (Inl e)
    with Some show ?thesis using modify_req_hdrs_invalid [of self t e] by simp
  next
    case (Inr l_m)
    with Some modify_req_hdrs_valid [of self t l_m] show ?thesis by fastforce
  qed
qed

theorem modify_req_hdrs_prefix_witness:
  "\<exists>extra. [(''User-Agent'', ''RED''),
            (''If-Modified-Since'', ''Sun, 05 Mar 2023 07:08:09 GMT'')] =
      [(''User-Agent'', ''RED'')] @ extra \<and>
     (extra = [] \<or> (\<exists>v. extra = [(''If-Modified-Since'', v)]))"
proof -
  have h: "headers (request (base (probe base_res resp_same))) = [(''User-Agent'', ''RED'')]"
    by (simp add: examples_defs)
  from modify_req_hdrs_prefix [of "probe base_res resp_same"] example_header h
  show ?thesis by simp
qed

section \<open>Presentation of headers\<close>

lemma lower_char_not_upper: "lower_char c \<notin> set ascii_uppercase"
proof (cases "c \<in> set ascii_uppercase")
  case True
  then show ?thesis
    by (auto simp: ascii_uppercase_def ascii_lowercase_def lower_char_def)
next
  case False
  then have "map_of (zip ascii_uppercase ascii_lowercase) c = None"
    by (simp add: map_of_eq_None_iff ascii_uppercase_def ascii_lowercase_def)
  with False show ?thesis by (simp add: lower_char_def)
qed

lemma token_no_upper:
  assumes "c \<in> set (dash_to_underscore (lower s))"
  shows "c \<notin> set ascii_uppercase"
proof -
  define f where "f = (\<lambda>c. if c = CHR ''-'' then CHR ''_'' else c)"
  have "dash_to_underscore (lower s) = map (\<lambda>d. f (lower_char d)) s"
    by (simp add: dash_to_underscore_def lower_def f_def)
  with assms have "c \<in> (\<lambda>d. f (lower_char d)) ` set s" by simp
  then obtain d where c: "c = f (lower_char d)" by blast
  have "CHR ''_'' \<notin> set ascii_uppercase" by (simp add: ascii_uppercase_def)
  with c lower_char_not_upper [of d] show ?thesis by (simp add: f_def)
qed

lemma token_not_capitalised:
  "dash_to_underscore (lower s) \<noteq> ''Show''"
  "dash_to_underscore (lower s) \<noteq> ''BARE_URI''"
  "dash_to_underscore (lower s) \<noteq> ''I''"
proof -
  have "CHR ''S'' \<in> set ascii_uppercase" "CHR ''B'' \<in> set ascii_uppercase"
    "CHR ''I'' \<in> set ascii_uppercase"
    by (simp_all add: ascii_uppercase_def)
  then show "dash_to_underscore (lower s) \<noteq> ''Show''"
    "dash_to_underscore (lower s) \<noteq> ''BARE_URI''"
    "dash_to_underscore (lower s) \<noteq> ''I''"
    using token_no_upper [of "CHR ''S''" s] token_no_upper [of "CHR ''B''" s]
      token_no_upper [of "CHR ''I''" s]
    by auto
qed

lemma HeaderPresenter_lookup:
  assumes "dash_to_underscore (lower s) \<noteq> ''formatter''"
  shows "map_of HeaderPresenter (dash_to_underscore (lower s)) =
           map_of handler_table (dash_to_underscore (lower s))"
  using assms token_not_capitalised [of s]
  by (simp add: HeaderPresenter_def handler_table_def)

lemma handler_table_cases:
  "map_of handler_table t =
     (if t \<in> {''content_location'', ''location'', ''x_xrds_location''}
      then Some Method_BARE_URI else None)"
  by (simp add: handler_table_def)

lemma handler_table_underscore:
  "hd t = CHR ''_'' \<Longrightarrow> map_of handler_table t = None"
  by (auto simp: handler_table_cases)


lemma Show_agrees:
  assumes "name \<noteq> []" and "dash_to_underscore (lower name) \<noteq> ''formatter''"
  shows "Show HeaderPresenter name value = Show_by_table name value"
proof -
  let ?t = "dash_to_underscore (lower name)"
  from assms(1) have ne: "?t \<noteq> []" by (simp add: dash_to_underscore_def lower_def)
  have l: "map_of HeaderPresenter ?t = map_of handler_table ?t"
    using assms(2) by (rule HeaderPresenter_lookup)
  show ?thesis
  proof (cases "hd ?t = CHR ''_''")
    case True
    then have "map_of handler_table ?t = None" by (rule handler_table_underscore)
    with True ne show ?thesis by (simp add: Show_def Show_by_table_def Let_def)
  next
    case False
    show ?thesis
    proof (cases "map_of handler_table ?t")
      case None
      with False ne l show ?thesis
        by (simp add: Show_def Show_by_table_def Let_def hasattr_def)
    next
      case (Some a)
      then have "a = Method_BARE_URI"
        by (simp add: handler_table_cases split: if_splits)
      with Some False ne l show ?thesis
        by (simp add: Show_def Show_by_table_def Let_def hasattr_def call_attr_def)
    qed
  qed
qed

text \<open>
  C9, as the code has it. \<open>Show\<close> picks the handler by looking the header's token (the
  name in lower case, dashes turned into underscores, not starting with an underscore)
  up among the attributes of the presenter object. On \<open>HeaderPresenter\<close> as written, for
  every non-empty name whose token is not \<open>formatter\<close>, that gives what a lookup in the
  table of the three header tokens of \<open>BARE_URI\<close> gives: \<open>BARE_URI\<close> for content-location,
  location and x-xrds-location, and the escaped, wrapped value for every other name.
\<close>


theorem Show_dispatch:
  "name \<noteq> [] \<and> dash_to_underscore (lower name) \<noteq> ''formatter'' \<longrightarrow>
     Show HeaderPresenter name value = Show_by_table name value \<and>
     Show HeaderPresenter name value =
       (if dash_to_underscore (lower name) \<in>
             {''content_location'', ''location'', ''x_xrds_location''}
        then Inr (Call Method_BARE_URI (lower name) value)
        else Inr (Wrapped (e_html value) (length name)))"
proof (intro impI)
  assume a: "name \<noteq> [] \<and> dash_to_underscore (lower name) \<noteq> ''formatter''"
  then have s: "Show HeaderPresenter name value = Show_by_table name value"
    by (simp add: Show_agrees)
  have "Show_by_table name value =
       (if dash_to_underscore (lower name) \<in>
             {''content_location'', ''location'', ''x_xrds_location''}
        then Inr (Call Method_BARE_URI (lower name) value)
        else Inr (Wrapped (e_html value) (length name)))"
    by (simp add: Show_by_table_def Let_def handler_table_cases lower_def)
  with s show "Show HeaderPresenter name value = Show_by_table name value \<and>
     Show HeaderPresenter name value =
       (if dash_to_underscore (lower name) \<in>
             {''content_location'', ''location'', ''x_xrds_location''}
        then Inr (Call Method_BARE_URI (lower name) value)
        else Inr (Wrapped (e_html value) (length name)))"
    by simp
qed

theorem Show_dispatch_witness:
  "''Content-Location'' \<noteq> [] \<and>
   dash_to_underscore (lower ''Content-Location'') \<noteq> ''formatter'' \<and>
   Show HeaderPresenter ''Content-Location'' ''/a'' =
     Inr (Call Method_BARE_URI ''content-location'' ''/a'') \<and>
   ''ETag'' \<noteq> [] \<and> dash_to_underscore (lower ''ETag'') \<noteq> ''formatter'' \<and>
   Show HeaderPresenter ''ETag'' ''<x>'' = Inr (Wrapped ''&lt;x&gt;'' (length ''ETag''))"
proof -
  have t: "dash_to_underscore (lower ''Content-Location'') = ''content_location''"
    "lower ''Content-Location'' = ''content-location''"
    "dash_to_underscore ''content-location'' = ''content_location''"
    "dash_to_underscore (lower ''ETag'') = ''etag''"
    "lower ''ETag'' = ''etag''" "dash_to_underscore ''etag'' = ''etag''"
    "e_html ''<x>'' = ''&lt;x&gt;''"
    by code_simp+
  have a: "Show HeaderPresenter ''Content-Location'' ''/a'' =
     Inr (Call Method_BARE_URI ''content-location'' ''/a'')"
    using Show_dispatch [of "''Content-Location''" "''/a''"] by (auto simp: t)
  have b: "Show HeaderPresenter ''ETag'' ''<x>'' = Inr (Wrapped ''&lt;x&gt;'' (length ''ETag''))"
    using Show_dispatch [of "''ETag''" "''<x>''"] by (auto simp: t)
  from a b t show ?thesis by simp
qed

text \<open>
  The claim as the spec words it fails. A header named \<open>Formatter\<close> is handed to the
  presenter's \<open>formatter\<close> attribute, which no table of handlers holds, and the call
  raises TypeError where a table lookup gives the default presentation; and the same
  header \<open>ETag\<close> is presented differently by a presenter that happens to have an
  attribute \<open>etag\<close>.
\<close>

theorem Show_dispatch_counterexample:
  "Show HeaderPresenter ''Formatter'' ''x'' = Inl TypeError \<and>
   Show_by_table ''Formatter'' ''x'' = Inr (Wrapped ''x'' 9) \<and>
   Show HeaderPresenter ''Formatter'' ''x'' \<noteq> Show_by_table ''Formatter'' ''x'' \<and>
   Show HeaderPresenter ''ETag'' ''x'' = Inr (Wrapped ''x'' 4) \<and>
   Show presenter_with_etag ''ETag'' ''x'' = Inr (Call Method_BARE_URI ''etag'' ''x'')"
  by code_simp

section \<open>Keys of the notes in the HTML output\<close>

lemma stable_keys_same:
  "map deref rs = map deref rs' \<Longrightarrow> stable_keys ident rs = stable_keys ident rs'"
proof -
  assume a: "map deref rs = map deref rs'"
  then have l: "length rs = length rs'" by (rule map_eq_imp_length_eq)
  have "stable_keys ident xs = map (\<lambda>(i, n). ident i n) (enumerate 0 (map deref xs))" for xs
    by (simp add: stable_keys_def enumerate_eq_zip zip_map2 case_prod_unfold comp_def)
  with a show ?thesis by simp
qed

lemma format_category_keys:
  "map fst (hidden_text (snd (format_category sp links self cat rs))) =
     map fst (hidden_text self) @
     map (\<lambda>r. ''noteid-'' @ digits (py_id r))
       (filter (\<lambda>r. category (note_cls (deref r)) = Some cat) rs)"
  by (simp add: format_category_def Let_def category_hidden_def comp_def)

lemma example_ids: "digits 140001 = ''140001''" "digits 140002 = ''140002''"
  by (simp_all add: digits.simps)

lemma example_filter:
  "filter (\<lambda>r. category (note_cls (deref r)) = Some VALIDATION) notes_run_a = notes_run_a"
  "filter (\<lambda>r. category (note_cls (deref r)) = Some VALIDATION) notes_run_b = notes_run_b"
  by (simp_all add: notes_run_a_def notes_run_b_def note_ims_304_def deref_def)

lemma example_key_maps:
  "map (\<lambda>r. ''noteid-'' @ digits (py_id r)) notes_run_a = [''noteid-140001'']"
  "map (\<lambda>r. ''noteid-'' @ digits (py_id r)) notes_run_b = [''noteid-140002'']"
  "map (\<lambda>m. ''msgid-'' @ digits (py_id m)) notes_run_b = [''msgid-140002'']"
  by (simp_all add: notes_run_a_def notes_run_b_def py_id_def example_ids)

lemma example_formatter:
  "hidden_text formatter_en = []"
  "hidden_text (formatter_en\<lparr>problems := notes_run_b\<rparr>) = []"
  "problems (formatter_en\<lparr>problems := notes_run_b\<rparr>) = notes_run_b"
  by (simp_all add: formatter_en_def)

lemma example_keys:
  "map fst (hidden_text (snd (format_category speak_en [] formatter_en VALIDATION notes_run_a))) =
     [''noteid-140001'']"
  "map fst (hidden_text (snd (format_category speak_en [] formatter_en VALIDATION notes_run_b))) =
     [''noteid-140002'']"
  by (simp_all only: format_category_keys example_filter example_formatter example_key_maps
      list.map append_Nil)

text \<open>
  C8, as the code has it. The key that \<open>format_category\<close> writes for a note, in the list
  item and in \<open>hidden_text\<close> alike, is \<open>noteid-\<close> followed by \<open>id(note)\<close> in decimal, and the
  key that \<open>format_problems\<close> writes is \<open>msgid-\<close> followed by \<open>id(m)\<close>: the identity of the
  Note object at run time.
\<close>

theorem note_keys_are_object_ids:
  "map fst (hidden_text (snd (format_category sp links self cat rs))) =
     map fst (hidden_text self) @
     map (\<lambda>r. ''noteid-'' @ digits (py_id r))
       (filter (\<lambda>r. category (note_cls (deref r)) = Some cat) rs) \<and>
   map fst (hidden_text (snd (format_problems sp tself))) =
     map fst (hidden_text tself) @ map (\<lambda>m. ''msgid-'' @ digits (py_id m)) (problems tself) \<and>
   (\<exists>pre post. category_li sp lng r = pre @ fst (category_hidden sp lng r) @ post) \<and>
   (\<exists>pre post. problem_li sp lng r = pre @ fst (problem_hidden sp lng r) @ post)"
proof (intro conjI)
  show "map fst (hidden_text (snd (format_category sp links self cat rs))) =
     map fst (hidden_text self) @
     map (\<lambda>r. ''noteid-'' @ digits (py_id r))
       (filter (\<lambda>r. category (note_cls (deref r)) = Some cat) rs)"
    by (rule format_category_keys)
  show "map fst (hidden_text (snd (format_problems sp tself))) =
     map fst (hidden_text tself) @ map (\<lambda>m. ''msgid-'' @ digits (py_id m)) (problems tself)"
    by (simp add: format_problems_def problem_hidden_def comp_def)
  have "category_li sp lng r =
      (''    <li class='' @ [CHR 0x27] @ level_str sp (level (note_cls (deref r))) @
       '' note'' @ [CHR 0x27] @ '' data-subject='' @ [CHR 0x27] @
       e_html (subject (deref r)) @ [CHR 0x27] @ '' data-name='' @ [CHR 0x27]) @
      fst (category_hidden sp lng r) @
      ([CHR 0x27] @ ''>'' @ nl @
       ''        <span>'' @ e_html (show_summary sp (deref r) lng) @ ''</span>'' @ nl @
       ''    </li>'')"
    by (simp add: category_li_def category_hidden_def)
  then show "\<exists>pre post. category_li sp lng r = pre @ fst (category_hidden sp lng r) @ post"
    by blast
  have "problem_li sp lng r =
      (''    <li class='' @ [CHR 0x27] @ level_str sp (level (note_cls (deref r))) @ '' '' @
       e_html (subject (deref r)) @ '' note'' @ [CHR 0x27] @ '' name='' @ [CHR 0x27]) @
      fst (problem_hidden sp lng r) @
      ([CHR 0x27] @ ''><span>'' @ e_html (show_summary sp (deref r) lng) @ ''</span></li>'')"
    by (simp add: problem_li_def problem_hidden_def)
  then show "\<exists>pre post. problem_li sp lng r = pre @ fst (problem_hidden sp lng r) @ post"
    by blast
qed


theorem note_keys_are_object_ids_witness:
  "map fst (hidden_text (snd (format_category speak_en [] formatter_en VALIDATION notes_run_a))) =
     [''noteid-140001''] \<and>
   map fst (hidden_text (snd (format_problems speak_en
     (formatter_en\<lparr>problems := notes_run_b\<rparr>)))) = [''msgid-140002'']"
proof -
  from note_keys_are_object_ids [of speak_en "[]" formatter_en VALIDATION notes_run_a
      "formatter_en\<lparr>problems := notes_run_b\<rparr>"]
  have a: "map fst (hidden_text (snd (format_category speak_en [] formatter_en VALIDATION notes_run_a))) =
     map fst (hidden_text formatter_en) @
     map (\<lambda>r. ''noteid-'' @ digits (py_id r))
       (filter (\<lambda>r. category (note_cls (deref r)) = Some VALIDATION) notes_run_a)"
    and b: "map fst (hidden_text (snd (format_problems speak_en
        (formatter_en\<lparr>problems := notes_run_b\<rparr>)))) =
     map fst (hidden_text (formatter_en\<lparr>problems := notes_run_b\<rparr>)) @
     map (\<lambda>m. ''msgid-'' @ digits (py_id m))
       (problems (formatter_en\<lparr>problems := notes_run_b\<rparr>))"
    by blast+
  from a have a': "map fst (hidden_text (snd (format_category speak_en [] formatter_en
      VALIDATION notes_run_a))) = [''noteid-140001'']"
    by (simp only: example_filter example_formatter example_key_maps list.map append_Nil)
  from b have b': "map fst (hidden_text (snd (format_problems speak_en
      (formatter_en\<lparr>problems := notes_run_b\<rparr>)))) = [''msgid-140002'']"
    by (simp only: example_formatter example_key_maps list.map append_Nil)
  from a' b' show ?thesis by (rule conjI)
qed

text \<open>
  The claim as the spec words it fails: the same note, first in its resource and with
  the same content in both runs, so with the same counter and the same content hash,
  gets two different keys.
\<close>

theorem note_keys_counterexample:
  "map deref notes_run_a = map deref notes_run_b \<and>
   length notes_run_a = length notes_run_b \<and>
   map fst (hidden_text (snd (format_category speak_en [] formatter_en VALIDATION notes_run_a))) =
     [''noteid-140001''] \<and>
   map fst (hidden_text (snd (format_category speak_en [] formatter_en VALIDATION notes_run_b))) =
     [''noteid-140002''] \<and>
   map fst (hidden_text (snd (format_category speak_en [] formatter_en VALIDATION notes_run_a))) \<noteq>
   map fst (hidden_text (snd (format_category speak_en [] formatter_en VALIDATION notes_run_b)))"
proof -
  have c: "map deref notes_run_a = map deref notes_run_b"
    "length notes_run_a = length notes_run_b"
    by (simp_all add: notes_run_a_def notes_run_b_def deref_def)
  have d: "[''noteid-140001''] \<noteq> [''noteid-140002'']" by simp
  from c d show ?thesis by (simp only: example_keys) simp
qed

end
